theory Spec2Isabelle
  imports Main
begin

section \<open>Python values and exceptions\<close>

text \<open>
  The module \<^verbatim>\<open>library/junos_get_table.py\<close> is dynamically typed.  The values that a
  PyEZ table hands to it are modelled by one datatype: \<^verbatim>\<open>None\<close>, integers, strings,
  tuples and lists.  On these values Python's \<^verbatim>\<open>==\<close> on hashable values is
  structural equality, so a dictionary key is compared by HOL equality.
\<close>

datatype pyval =
    PNone
  | PInt int
  | PStr string
  | PTuple "pyval list"
  | PList "pyval list"

text \<open>
  The subclasses of \<^verbatim>\<open>Exception\<close> that the module can meet.  \<open>OtherError\<close> carries the
  text of an exception raised by a collaborator (PyEZ, YAML, the file system).
  \<^verbatim>\<open>SystemExit\<close> is not among them: it is not a subclass of \<^verbatim>\<open>Exception\<close>.
\<close>

datatype exn = IOError | KeyError | TypeError | ValueError | OtherError string

text \<open>
  Iterating a value (\<^verbatim>\<open>for x in v\<close>): lists and tuples yield their elements, a string
  yields its one-character strings, \<^verbatim>\<open>None\<close> and integers raise \<^verbatim>\<open>TypeError\<close>.
\<close>

fun py_iter :: "pyval \<Rightarrow> exn + pyval list" where
  "py_iter (PList xs) = Inr xs"
| "py_iter (PTuple xs) = Inr xs"
| "py_iter (PStr s) = Inr (map (\<lambda>c. PStr [c]) s)"
| "py_iter PNone = Inl TypeError"
| "py_iter (PInt n) = Inl TypeError"

text \<open>
  Unpacking into two targets (\<^verbatim>\<open>a, b = v\<close>, also in the header of a \<^verbatim>\<open>for\<close> loop):
  the value is iterated and must yield exactly two elements, else \<^verbatim>\<open>ValueError\<close>.
\<close>

fun unpack2_list :: "pyval list \<Rightarrow> exn + pyval \<times> pyval" where
  "unpack2_list [a, b] = Inr (a, b)"
| "unpack2_list _ = Inl ValueError"

definition unpack2 :: "pyval \<Rightarrow> exn + pyval \<times> pyval" where
  "unpack2 v = (case py_iter v of Inl e \<Rightarrow> Inl e | Inr xs \<Rightarrow> unpack2_list xs)"

text \<open>
  A dictionary key must be hashable: \<^verbatim>\<open>None\<close>, integers and strings are, a tuple is
  when all its elements are, a list is not (\<^verbatim>\<open>TypeError: unhashable type\<close>).
\<close>

fun hashable :: "pyval \<Rightarrow> bool" where
  "hashable PNone = True"
| "hashable (PInt n) = True"
| "hashable (PStr s) = True"
| "hashable (PTuple xs) = list_all hashable xs"
| "hashable (PList xs) = False"

type_synonym dict = "pyval \<rightharpoonup> pyval"

section \<open>The normalizer: \<^verbatim>\<open>juniper_items_to_list_of_dicts\<close>\<close>

text \<open>
  Lines 153--157: the inner loop over \<^verbatim>\<open>table_fields\<close>.  Each element is unpacked into
  \<^verbatim>\<open>normalized_key, normalized_value\<close> and stored with \<^verbatim>\<open>temp[normalized_key] =
  normalized_value\<close>.
\<close>

fun fields_loop :: "dict \<Rightarrow> pyval list \<Rightarrow> exn + dict" where
  "fields_loop temp [] = Inr temp"
| "fields_loop temp (p # ps) =
     (case unpack2 p of
        Inl e \<Rightarrow> Inl e
      | Inr (normalized_key, normalized_value) \<Rightarrow>
          if hashable normalized_key
          then fields_loop (temp(normalized_key \<mapsto> normalized_value)) ps
          else Inl TypeError)"

text \<open>
  Lines 147--157, the body of the outer loop for one element of \<^verbatim>\<open>data.items()\<close>: unpack
  it into \<^verbatim>\<open>table_key, table_fields\<close>, start from the empty dictionary and run the
  inner loop over \<^verbatim>\<open>table_fields\<close>.  The table key is not used.
\<close>

definition item_to_dict :: "pyval \<Rightarrow> exn + dict" where
  "item_to_dict item =
     (case unpack2 item of
        Inl e \<Rightarrow> Inl e
      | Inr (table_key, table_fields) \<Rightarrow>
          (case py_iter table_fields of
             Inl e \<Rightarrow> Inl e
           | Inr ps \<Rightarrow> fields_loop Map.empty ps))"

text \<open>Lines 145--159: the outer loop appends one dictionary per item.\<close>

fun items_loop :: "dict list \<Rightarrow> pyval list \<Rightarrow> exn + dict list" where
  "items_loop list_of_resources [] = Inr list_of_resources"
| "items_loop list_of_resources (item # items) =
     (case item_to_dict item of
        Inl e \<Rightarrow> Inl e
      | Inr temp \<Rightarrow> items_loop (list_of_resources @ [temp]) items)"

text \<open>
  The function itself.  Its argument here is the value of \<^verbatim>\<open>data.items()\<close>, which the
  \<^verbatim>\<open>for\<close> statement iterates.
\<close>

definition juniper_items_to_list_of_dicts :: "pyval \<Rightarrow> exn + dict list" where
  "juniper_items_to_list_of_dicts data_items =
     (case py_iter data_items of
        Inl e \<Rightarrow> Inl e
      | Inr items \<Rightarrow> items_loop [] items)"

subsection \<open>Well-formed raw items\<close>

text \<open>
  A field is well formed when it unpacks into a key and a value and the key is hashable;
  an item when it unpacks into a table key and an iterable of well-formed fields.
\<close>

definition wf_field :: "pyval \<Rightarrow> bool" where
  "wf_field p = (case unpack2 p of Inl e \<Rightarrow> False | Inr (k, v) \<Rightarrow> hashable k)"

definition wf_item :: "pyval \<Rightarrow> bool" where
  "wf_item item =
     (case unpack2 item of
        Inl e \<Rightarrow> False
      | Inr (table_key, table_fields) \<Rightarrow>
          (case py_iter table_fields of
             Inl e \<Rightarrow> False
           | Inr ps \<Rightarrow> list_all wf_field ps))"

definition wf_items :: "pyval \<Rightarrow> bool" where
  "wf_items data_items =
     (case py_iter data_items of Inl e \<Rightarrow> False | Inr items \<Rightarrow> list_all wf_item items)"

text \<open>The key and value a field unpacks into, when it does.\<close>

definition field_pair :: "pyval \<Rightarrow> (pyval \<times> pyval) option" where
  "field_pair p = (case unpack2 p of Inl e \<Rightarrow> None | Inr kv \<Rightarrow> Some kv)"

definition field_key :: "pyval \<Rightarrow> pyval option" where
  "field_key p = map_option fst (field_pair p)"

text \<open>The fields of an item: what the inner loop iterates.\<close>

definition item_fields :: "pyval \<Rightarrow> pyval list" where
  "item_fields item =
     (case unpack2 item of
        Inl e \<Rightarrow> []
      | Inr (table_key, table_fields) \<Rightarrow>
          (case py_iter table_fields of Inl e \<Rightarrow> [] | Inr ps \<Rightarrow> ps))"

definition item_keys :: "pyval \<Rightarrow> pyval set" where
  "item_keys item = set (List.map_filter field_key (item_fields item))"

text \<open>
  The dictionary in which every key of a field list is bound to the value of its last
  pair.  It is what the inner loop computes on well-formed fields (lemma
  \<open>fields_loop_wf\<close> below).
\<close>

definition fields_dict :: "pyval list \<Rightarrow> dict" where
  "fields_dict ps = map_of (rev (List.map_filter field_pair ps))"


section \<open>The entry point: \<^verbatim>\<open>main\<close>\<close>

subsection \<open>Arguments, collaborators, outcomes\<close>

text \<open>
  The parameters of the module (\<^verbatim>\<open>module.params\<close>, lines 164--178).  \<open>file\<close> and
  \<open>table\<close> are required, so they are always strings; \<open>response_type\<close> is one of the
  two strings of \<^verbatim>\<open>CHOICES\<close>.
\<close>

record args =
  host :: string
  user :: "string option"
  passwd :: "string option"
  port :: string
  logfile :: "string option"
  "file" :: string
  path :: string
  table :: string
  response_type :: string

text \<open>
  A PyEZ table bound to the device: what \<^verbatim>\<open>data.get()\<close> does (\<open>None\<close> when it returns,
  \<open>Some err\<close> when it raises) and the value of \<^verbatim>\<open>data.items()\<close> afterwards.
\<close>

record table_data =
  table_get :: "exn option"
  table_items :: pyval

text \<open>
  What calling an object of the module namespace on the device does: it raises, or it
  returns a table.
\<close>

type_synonym callee = "exn + table_data"

text \<open>
  The collaborators of one invocation:
  \<^item> \<open>HAS_PYEZ\<close>: the flag computed at lines 126--135;
  \<^item> \<open>dev_open\<close>: \<^verbatim>\<open>Device(...).open()\<close> of lines 200--201, \<open>None\<close> when the connection
    is opened, \<open>Some err\<close> when it raises;
  \<^item> \<open>load_tables\<close>: \<^verbatim>\<open>FactoryLoader().load(yaml.load(open(file_name).read()))\<close> of
    lines 212--213 at a file name: it raises, or it returns the catalogue of the names
    the file defines;
  \<^item> \<open>imported\<close>: the other names of the module namespace that can be called (the
    classes and functions that the import statements bind, and
    \<^verbatim>\<open>juniper_items_to_list_of_dicts\<close>), with what calling each on the device does; that
    is decided by code outside this file.
\<close>

record env =
  HAS_PYEZ :: bool
  dev_open :: "exn option"
  load_tables :: "string \<Rightarrow> exn + (string \<rightharpoonup> callee)"
  imported :: "string \<rightharpoonup> callee"

text \<open>
  What the invocation does to the outside, in order: configuring the log file (line 192),
  a log record, the attempt to open the connection, the attempt to read the definition
  file, the request to the device, closing the connection.
\<close>

datatype event =
    Log_config string
  | Log_info
  | Log_error
  | Dev_open
  | Read_file string
  | Data_get
  | Dev_close

record state =
  conn_open :: bool
  trace :: "event list"

text \<open>
  The failures that \<^verbatim>\<open>module.fail_json\<close> reports, one constructor per call site:
  line 181, line 189, line 205 (host and error), line 215 (file name), lines 220--221
  (table and file name), line 231 (error).
\<close>

datatype failure =
    PyEZ_required
  | Bad_extension
  | Unable_to_connect string exn
  | Unable_to_find_file string
  | Unable_to_find_table string string
  | Uncaught exn

datatype resource = Dicts "dict list" | Items pyval

text \<open>
  How one invocation ends: \<^verbatim>\<open>exit_json\<close> with the resource, or \<^verbatim>\<open>fail_json\<close> with a
  failure.  \<open>Not_modelled\<close> stands for the runs that this model does not follow to their
  end (see \<open>shadows\<close> below); nothing is stated about them.
\<close>

datatype outcome = Exit_json resource | Fail_json failure | Not_modelled

text \<open>
  How the \<^verbatim>\<open>try\<close> body of lines 210--226 ends: it completes with the resource, it raises
  an \<^verbatim>\<open>Exception\<close>, or \<^verbatim>\<open>fail_json\<close> ends the process.  \<^verbatim>\<open>fail_json\<close> reports the failure
  and calls \<^verbatim>\<open>sys.exit\<close>; the \<^verbatim>\<open>SystemExit\<close> it raises is not an \<^verbatim>\<open>Exception\<close>, so
  the handler of line 227 does not catch it (line 206 marks what follows a
  \<^verbatim>\<open>fail_json\<close> as unreachable).  \<open>Shadowed\<close>: the loaded catalogue rebinds a name
  that the rest of \<^verbatim>\<open>main\<close> resolves in the module namespace (see \<open>shadows\<close> below).
\<close>

datatype 'a completion = Returned 'a | Raised exn | Exited failure | Shadowed

subsection \<open>Strings and paths\<close>

text \<open>\<^verbatim>\<open>s.endswith(suffix)\<close>.\<close>

definition endswith :: "string \<Rightarrow> string \<Rightarrow> bool" where
  "endswith s suffix =
     (length suffix \<le> length s \<and> drop (length s - length suffix) s = suffix)"

text \<open>\<^verbatim>\<open>os.path.join(a, b)\<close> on a POSIX host.\<close>

definition path_join :: "string \<Rightarrow> string \<Rightarrow> string" where
  "path_join a b =
     (if take 1 b = ''/'' then b
      else if a = [] \<or> endswith a ''/'' then a @ b
      else a @ ''/'' @ b)"

subsection \<open>The module namespace\<close>

text \<open>
  \<^verbatim>\<open>globals()\<close> holds more than the tables of the definition file.  These names are
  bound to objects that cannot be called, so that calling any of them on the device
  raises \<^verbatim>\<open>TypeError\<close>:
  \<^item> the strings, the boolean and the list that the module assigns (lines 18, 82, 91,
    131--135, 137, 138) and the version string imported at line 128;
  \<^item> the modules imported at lines 119--121, 124 and 129;
  \<^item> the names that the interpreter binds in the namespace of a module:
    \<^verbatim>\<open>__name__\<close>, \<^verbatim>\<open>__doc__\<close>, \<^verbatim>\<open>__file__\<close>, \<^verbatim>\<open>__package__\<close>, \<^verbatim>\<open>__builtins__\<close>, and,
    as Python 3 does, \<^verbatim>\<open>__spec__\<close>, \<^verbatim>\<open>__loader__\<close> and \<^verbatim>\<open>__cached__\<close>.

  \<^verbatim>\<open>main\<close> is bound to a function of no argument: calling it on the device raises
  \<^verbatim>\<open>TypeError\<close> too.  The star import of line 237 is taken not to rebind these names
  to something that can be called.
\<close>

definition module_constants :: "string list" where
  "module_constants =
     [''DOCUMENTATION'', ''EXAMPLES'', ''RETURN'', ''HAS_PYEZ'', ''TABLE_PATH'', ''CHOICES'',
      ''VERSION'',
      ''logging'', ''os'', ''etree'', ''yaml'', ''tables_dir'',
      ''__name__'', ''__doc__'', ''__file__'', ''__package__'', ''__builtins__'',
      ''__spec__'', ''__loader__'', ''__cached__'']"

definition module_globals :: "(string \<rightharpoonup> callee) \<Rightarrow> (string \<rightharpoonup> callee)" where
  "module_globals imports =
     imports ++ map_of (map (\<lambda>name. (name, Inl TypeError)) (''main'' # module_constants))"

text \<open>
  After \<^verbatim>\<open>globals().update(...)\<close> of line 212, \<^verbatim>\<open>main\<close> still resolves these names in the
  module namespace: \<^verbatim>\<open>logging\<close> (lines 216 and 229), \<^verbatim>\<open>globals\<close> (line 218),
  \<^verbatim>\<open>KeyError\<close> (line 219), \<^verbatim>\<open>juniper_items_to_list_of_dicts\<close> (line 224), \<^verbatim>\<open>Exception\<close>
  (line 227) and \<^verbatim>\<open>str\<close> (line 228).  A catalogue that binds one of them replaces it by
  an object that PyEZ built; what the statement that uses it does then is decided by that
  object, outside this file.  The model stops such a run at the update.
\<close>

definition names_used_after_update :: "string list" where
  "names_used_after_update =
     [''logging'', ''globals'', ''KeyError'', ''juniper_items_to_list_of_dicts'',
      ''Exception'', ''str'']"

definition shadows :: "(string \<rightharpoonup> callee) \<Rightarrow> bool" where
  "shadows loaded = list_ex (\<lambda>name. loaded name \<noteq> None) names_used_after_update"

subsection \<open>The control flow\<close>

definition emit :: "event \<Rightarrow> state \<Rightarrow> state" where
  "emit e s = s\<lparr>trace := trace s @ [e]\<rparr>"

text \<open>\<^verbatim>\<open>dev.close()\<close>.\<close>

definition dev_close :: "state \<Rightarrow> state" where
  "dev_close s = emit Dev_close (s\<lparr>conn_open := False\<rparr>)"

text \<open>
  Lines 210--226.  An \<^verbatim>\<open>IOError\<close> of the load and a \<^verbatim>\<open>KeyError\<close> of
  \<^verbatim>\<open>globals()[args['table']](dev)\<close> are caught by the inner handlers, which call
  \<^verbatim>\<open>fail_json\<close>; the namespace is the module's, updated with the loaded catalogue.  A
  catalogue that rebinds a name used afterwards ends the modelled part of the run.
\<close>

definition try_body :: "env \<Rightarrow> args \<Rightarrow> state \<Rightarrow> resource completion \<times> state" where
  "try_body env args s =
     (let file_name = path_join (path args) (file args);
          s1 = emit (Read_file file_name) s
      in case load_tables env file_name of
           Inl err \<Rightarrow>
             if err = IOError then (Exited (Unable_to_find_file file_name), s1)
             else (Raised err, s1)
         | Inr loaded \<Rightarrow>
             if shadows loaded then (Shadowed, s1)
             else
             let s2 = emit Log_info s1
             in (case (module_globals (imported env) ++ loaded) (table args) of
                   None \<Rightarrow> (Exited (Unable_to_find_table (table args) file_name), s2)
                 | Some (Inl err) \<Rightarrow>
                     if err = KeyError
                     then (Exited (Unable_to_find_table (table args) file_name), s2)
                     else (Raised err, s2)
                 | Some (Inr data) \<Rightarrow>
                     let s3 = emit Data_get s2
                     in (case table_get data of
                           Some err \<Rightarrow> (Raised err, s3)
                         | None \<Rightarrow>
                             if response_type args = ''list_of_dicts''
                             then (case juniper_items_to_list_of_dicts (table_items data) of
                                     Inl err \<Rightarrow> (Raised err, s3)
                                   | Inr r \<Rightarrow> (Returned (Dicts r), s3))
                             else (Returned (Items (table_items data)), s3))))"

text \<open>
  Lines 180--235.  The handler of line 227 logs, closes the connection and fails; the
  normal path closes the connection and exits with the resource; a \<^verbatim>\<open>fail_json\<close> inside
  the \<^verbatim>\<open>try\<close> body ends the process where it stands.  For a run that the model stops
  at the update, the state is the one reached there.
\<close>

definition main :: "env \<Rightarrow> args \<Rightarrow> outcome \<times> state" where
  "main env args =
     (let s0 = \<lparr>conn_open = False, trace = []\<rparr>
      in if \<not> HAS_PYEZ env then (Fail_json PyEZ_required, s0)
         else if \<not> endswith (file args) ''.yml'' then (Fail_json Bad_extension, s0)
         else
           let s1 = (case logfile args of None \<Rightarrow> s0 | Some name \<Rightarrow> emit (Log_config name) s0);
               s2 = emit Dev_open (emit Log_info s1)
           in case dev_open env of
                Some err \<Rightarrow> (Fail_json (Unable_to_connect (host args) err), emit Log_error s2)
              | None \<Rightarrow>
                  (case try_body env args (s2\<lparr>conn_open := True\<rparr>) of
                     (Returned resource, s3) \<Rightarrow> (Exit_json resource, dev_close s3)
                   | (Raised err, s3) \<Rightarrow> (Fail_json (Uncaught err), dev_close (emit Log_error s3))
                   | (Exited f, s3) \<Rightarrow> (Fail_json f, s3)
                   | (Shadowed, s3) \<Rightarrow> (Not_modelled, s3)))"

section \<open>Properties of the normalizer\<close>

lemma fields_loop_wf:
  "list_all wf_field ps \<Longrightarrow>
   fields_loop temp ps = Inr (temp ++ map_of (rev (List.map_filter field_pair ps)))"
proof (induction ps arbitrary: temp)
  case Nil
  then show ?case by simp
next
  case (Cons p ps)
  from Cons.prems obtain k v where kv: "unpack2 p = Inr (k, v)" and h: "hashable k"
    by (auto simp: wf_field_def split: sum.splits)
  from Cons.prems have "list_all wf_field ps" by simp
  then have "fields_loop (temp(k \<mapsto> v)) ps =
      Inr (temp(k \<mapsto> v) ++ map_of (rev (List.map_filter field_pair ps)))"
    by (rule Cons.IH)
  moreover have "temp(k \<mapsto> v) ++ map_of (rev (List.map_filter field_pair ps))
      = temp ++ map_of (rev (List.map_filter field_pair (p # ps)))"
    using kv by (simp add: field_pair_def map_add_upd_left fun_eq_iff map_add_def split: option.splits)
  ultimately show ?case using kv h by simp
qed

subsection \<open>The loops on well-formed and on malformed input\<close>

lemma unpack2_error: "unpack2 v = Inl e \<Longrightarrow> e = TypeError \<or> e = ValueError"
  unfolding unpack2_def
  by (cases v) (auto split: sum.splits elim: unpack2_list.elims)

lemma fields_loop_error:
  "fields_loop temp ps = Inl e \<Longrightarrow> e = TypeError \<or> e = ValueError"
  by (induction ps arbitrary: temp) (auto split: sum.splits if_splits dest: unpack2_error)

lemma fields_loop_Inr_wf:
  "fields_loop temp ps = Inr r \<Longrightarrow> list_all wf_field ps"
  by (induction ps arbitrary: temp) (auto simp: wf_field_def split: sum.splits if_splits)

lemma item_to_dict_error:
  "item_to_dict item = Inl e \<Longrightarrow> e = TypeError \<or> e = ValueError"
  unfolding item_to_dict_def
  by (auto split: sum.splits dest: unpack2_error fields_loop_error elim: py_iter.elims)

lemma item_to_dict_wf:
  "wf_item item \<Longrightarrow> item_to_dict item = Inr (fields_dict (item_fields item))"
  unfolding wf_item_def item_to_dict_def item_fields_def fields_dict_def
  by (auto split: sum.splits simp: fields_loop_wf)

lemma item_to_dict_Inr_wf:
  "item_to_dict item = Inr r \<Longrightarrow> wf_item item"
  unfolding wf_item_def item_to_dict_def
  by (auto split: sum.splits dest: fields_loop_Inr_wf)

lemma items_loop_wf:
  "list_all wf_item items \<Longrightarrow>
   items_loop acc items = Inr (acc @ map (\<lambda>item. fields_dict (item_fields item)) items)"
  by (induction items arbitrary: acc) (auto simp: item_to_dict_wf)

lemma items_loop_Inr_wf:
  "items_loop acc items = Inr rs \<Longrightarrow> list_all wf_item items"
  by (induction items arbitrary: acc) (auto split: sum.splits dest: item_to_dict_Inr_wf)

lemma items_loop_error:
  "items_loop acc items = Inl e \<Longrightarrow> e = TypeError \<or> e = ValueError"
  by (induction items arbitrary: acc) (auto split: sum.splits dest: item_to_dict_error)

lemma normalizer_wf:
  "py_iter data_items = Inr items \<Longrightarrow> list_all wf_item items \<Longrightarrow>
   juniper_items_to_list_of_dicts data_items =
     Inr (map (\<lambda>item. fields_dict (item_fields item)) items)"
  by (simp add: juniper_items_to_list_of_dicts_def items_loop_wf)

lemma field_keys_pairs:
  "set (List.map_filter field_key ps) = fst ` set (List.map_filter field_pair ps)"
  by (induction ps) (auto simp: field_key_def split: option.splits)

lemma dom_fields_dict: "dom (fields_dict ps) = set (List.map_filter field_key ps)"
  by (simp add: fields_dict_def dom_map_of_conv_image_fst field_keys_pairs)

lemma fields_dict_last:
  assumes "field_pair p = Some (k, v)" and "\<forall>q\<in>set post. field_key q \<noteq> Some k"
  shows "fields_dict (pre @ p # post) k = Some v"
proof -
  have "map_of (rev (List.map_filter field_pair post)) k = None"
    using assms(2)
    by (auto simp: map_of_eq_None_iff field_key_def map_filter_def split: option.splits)
  then show ?thesis using assms(1)
    by (simp add: fields_dict_def map_filter_def map_add_def split: option.splits)
qed









lemma normalizer_Inr:
  assumes "juniper_items_to_list_of_dicts data_items = Inr rs"
  shows "\<exists>items. py_iter data_items = Inr items \<and> list_all wf_item items \<and>
           rs = map (\<lambda>item. fields_dict (item_fields item)) items"
proof -
  from assms obtain items where it: "py_iter data_items = Inr items"
    and l: "items_loop [] items = Inr rs"
    by (auto simp: juniper_items_to_list_of_dicts_def split: sum.splits)
  from l have wf: "list_all wf_item items" by (rule items_loop_Inr_wf)
  with l have "rs = map (\<lambda>item. fields_dict (item_fields item)) items"
    by (simp add: items_loop_wf)
  with it wf show ?thesis by blast
qed


subsection \<open>The normalizer on concrete inputs\<close>

text \<open>
  The two neighbours of the module's documentation (the \<^verbatim>\<open>RETURN\<close> sample), as the
  items of a table with three fields.
\<close>

lemma neighbor_table_scenario:
  "juniper_items_to_list_of_dicts
     (PList
        [PTuple [PStr ''fxp0'',
                 PList [PTuple [PStr ''neighbor_interface'', PStr ''fxp0''],
                        PTuple [PStr ''local_interface'', PStr ''fxp0''],
                        PTuple [PStr ''neighbor'', PStr ''vmx2'']]],
         PTuple [PStr ''ge-0/0/2'',
                 PList [PTuple [PStr ''neighbor_interface'', PStr ''ge-0/0/2''],
                        PTuple [PStr ''local_interface'', PStr ''ge-0/0/2''],
                        PTuple [PStr ''neighbor'', PStr ''vmx2'']]]])
   = Inr [[PStr ''neighbor_interface'' \<mapsto> PStr ''fxp0'',
           PStr ''local_interface'' \<mapsto> PStr ''fxp0'',
           PStr ''neighbor'' \<mapsto> PStr ''vmx2''],
          [PStr ''neighbor_interface'' \<mapsto> PStr ''ge-0/0/2'',
           PStr ''local_interface'' \<mapsto> PStr ''ge-0/0/2'',
           PStr ''neighbor'' \<mapsto> PStr ''vmx2'']]"
  by (simp add: juniper_items_to_list_of_dicts_def item_to_dict_def unpack2_def)

text \<open>
  A field need not be a tuple: a string of two characters unpacks into its characters.
  A key that is a list is not hashable.
\<close>

lemma string_pair_is_unpacked:
  "juniper_items_to_list_of_dicts (PList [PTuple [PStr ''fxp0'', PList [PStr ''ab'']]])
     = Inr [[PStr ''a'' \<mapsto> PStr ''b'']]"
  by (simp add: juniper_items_to_list_of_dicts_def item_to_dict_def unpack2_def)

lemma unhashable_key_raises:
  "juniper_items_to_list_of_dicts
     (PList [PTuple [PStr ''fxp0'', PList [PTuple [PList [PStr ''neighbor''], PStr ''vmx2'']]]])
     = Inl TypeError"
  by (simp add: juniper_items_to_list_of_dicts_def item_to_dict_def unpack2_def)

section \<open>The claims about the normalizer\<close>

text \<open>
  Claim C4.  For every sequence of well-formed raw items, of length \<open>K\<close>, the normalizer
  returns a sequence of exactly \<open>K\<close> dictionaries, and the \<open>i\<close>-th dictionary is the
  dictionary of the fields of the \<open>i\<close>-th item (each key of its pairs bound to the value
  of the last pair with that key): the order is kept, nothing is dropped and nothing is
  merged.
\<close>

theorem normalizer_length_and_order:
  assumes "py_iter data_items = Inr items" and "list_all wf_item items"
  shows "\<exists>rs. juniper_items_to_list_of_dicts data_items = Inr rs \<and>
           length rs = length items \<and>
           (\<forall>i<length items. rs ! i = fields_dict (item_fields (items ! i)))"
proof -
  let ?rs = "map (\<lambda>item. fields_dict (item_fields item)) items"
  have "juniper_items_to_list_of_dicts data_items = Inr ?rs"
    using assms by (rule normalizer_wf)
  moreover have "length ?rs = length items" by simp
  moreover have "\<forall>i<length items. ?rs ! i = fields_dict (item_fields (items ! i))" by simp
  ultimately show ?thesis by blast
qed

text \<open>
  The theorem at three items, the third equal to the first: three records come back, in
  the order of the items, each with the keys and values of its own item.
\<close>

theorem normalizer_length_and_order_witness:
  "list_all wf_item
     [PTuple [PStr ''fxp0'', PList [PTuple [PStr ''neighbor'', PStr ''vmx2''],
                                    PTuple [PStr ''port'', PInt 1]]],
      PTuple [PStr ''ge-0/0/2'', PList [PTuple [PStr ''neighbor'', PStr ''vmx3'']]],
      PTuple [PStr ''fxp0'', PList [PTuple [PStr ''neighbor'', PStr ''vmx2''],
                                    PTuple [PStr ''port'', PInt 1]]]] \<and>
   juniper_items_to_list_of_dicts (PList
     [PTuple [PStr ''fxp0'', PList [PTuple [PStr ''neighbor'', PStr ''vmx2''],
                                    PTuple [PStr ''port'', PInt 1]]],
      PTuple [PStr ''ge-0/0/2'', PList [PTuple [PStr ''neighbor'', PStr ''vmx3'']]],
      PTuple [PStr ''fxp0'', PList [PTuple [PStr ''neighbor'', PStr ''vmx2''],
                                    PTuple [PStr ''port'', PInt 1]]]])
   = Inr [[PStr ''neighbor'' \<mapsto> PStr ''vmx2'', PStr ''port'' \<mapsto> PInt 1],
          [PStr ''neighbor'' \<mapsto> PStr ''vmx3''],
          [PStr ''neighbor'' \<mapsto> PStr ''vmx2'', PStr ''port'' \<mapsto> PInt 1]]"
proof -
  let ?a = "PTuple [PStr ''fxp0'', PList [PTuple [PStr ''neighbor'', PStr ''vmx2''],
                                    PTuple [PStr ''port'', PInt 1]]]"
  let ?b = "PTuple [PStr ''ge-0/0/2'', PList [PTuple [PStr ''neighbor'', PStr ''vmx3'']]]"
  let ?items = "[?a, ?b, ?a]"
  have it: "py_iter (PList ?items) = Inr ?items" by simp
  have wf: "list_all wf_item ?items"
    by (simp add: wf_item_def wf_field_def unpack2_def)
  have a: "fields_dict (item_fields ?a) = [PStr ''neighbor'' \<mapsto> PStr ''vmx2'', PStr ''port'' \<mapsto> PInt 1]"
    by (simp add: fields_dict_def item_fields_def field_pair_def unpack2_def)
  have b: "fields_dict (item_fields ?b) = [PStr ''neighbor'' \<mapsto> PStr ''vmx3'']"
    by (simp add: fields_dict_def item_fields_def field_pair_def unpack2_def)
  from normalizer_length_and_order [OF it wf]
  obtain rs where r: "juniper_items_to_list_of_dicts (PList ?items) = Inr rs"
    and l: "length rs = length ?items"
    and n: "\<forall>i<length ?items. rs ! i = fields_dict (item_fields (?items ! i))"
    by blast
  from n have "rs ! 0 = fields_dict (item_fields ?a)" and "rs ! 1 = fields_dict (item_fields ?b)"
    and "rs ! 2 = fields_dict (item_fields ?a)"
    by simp_all
  with a b have e: "rs ! 0 = [PStr ''neighbor'' \<mapsto> PStr ''vmx2'', PStr ''port'' \<mapsto> PInt 1]"
    "rs ! 1 = [PStr ''neighbor'' \<mapsto> PStr ''vmx3'']"
    "rs ! 2 = [PStr ''neighbor'' \<mapsto> PStr ''vmx2'', PStr ''port'' \<mapsto> PInt 1]"
    by simp_all
  from l have "length rs = 3" by simp
  then obtain x y z where "rs = [x, y, z]"
    by (auto simp: length_Suc_conv numeral_3_eq_3)
  with e have "rs = [[PStr ''neighbor'' \<mapsto> PStr ''vmx2'', PStr ''port'' \<mapsto> PInt 1],
          [PStr ''neighbor'' \<mapsto> PStr ''vmx3''],
          [PStr ''neighbor'' \<mapsto> PStr ''vmx2'', PStr ''port'' \<mapsto> PInt 1]]"
    by simp
  with r wf show ?thesis by simp
qed

text \<open>
  Claim C1 says that every record has one key per declared field, a field without a pair
  being bound to an absent marker.  The normalizer takes no schema: for the schema with
  the fields \<open>neighbor\<close> and \<open>local_interface\<close> and an item that carries only
  \<open>neighbor\<close>, the record has the single key \<open>neighbor\<close>; \<open>local_interface\<close> is not
  bound to \<^verbatim>\<open>None\<close>, it is missing.
\<close>

theorem missing_field_counterexample:
  "juniper_items_to_list_of_dicts
     (PList [PTuple [PStr ''fxp0'', PList [PTuple [PStr ''neighbor'', PStr ''vmx2'']]]])
     = Inr [[PStr ''neighbor'' \<mapsto> PStr ''vmx2'']] \<and>
   distinct [''neighbor'', ''local_interface''] \<and>
   dom [PStr ''neighbor'' \<mapsto> PStr ''vmx2''] \<noteq> PStr ` set [''neighbor'', ''local_interface''] \<and>
   card (dom [PStr ''neighbor'' \<mapsto> PStr ''vmx2'']) \<noteq> length [''neighbor'', ''local_interface''] \<and>
   [PStr ''neighbor'' \<mapsto> PStr ''vmx2''] (PStr ''local_interface'') \<noteq> Some PNone"
  by (simp add: juniper_items_to_list_of_dicts_def item_to_dict_def unpack2_def)

text \<open>
  Claim C1, as the code has it.  For every sequence of well-formed raw items, the keys of
  the \<open>i\<close>-th record are exactly the keys of the pairs of the \<open>i\<close>-th item.  So the record
  has exactly \<open>N\<close> keys, one per declared field name, whenever the item carries the \<open>N\<close>
  declared names and no other key; a declared field without a pair is not in the record.
\<close>

theorem record_keys_are_item_keys:
  assumes "py_iter data_items = Inr items" and "list_all wf_item items"
  shows "\<exists>rs. juniper_items_to_list_of_dicts data_items = Inr rs \<and>
           (\<forall>i<length items.
              dom (rs ! i) = item_keys (items ! i) \<and>
              (\<forall>fields. distinct fields \<and> item_keys (items ! i) = PStr ` set fields
                 \<longrightarrow> card (dom (rs ! i)) = length fields))"
proof -
  let ?rs = "map (\<lambda>item. fields_dict (item_fields item)) items"
  have r: "juniper_items_to_list_of_dicts data_items = Inr ?rs"
    using assms by (rule normalizer_wf)
  have "card (PStr ` set fields) = length fields" if "distinct fields" for fields
    using that by (simp add: card_image inj_on_def distinct_card)
  then have "\<forall>i<length items.
      dom (?rs ! i) = item_keys (items ! i) \<and>
      (\<forall>fields. distinct fields \<and> item_keys (items ! i) = PStr ` set fields
         \<longrightarrow> card (dom (?rs ! i)) = length fields)"
    by (simp add: dom_fields_dict item_keys_def)
  with r show ?thesis by blast
qed

text \<open>The theorem at a concrete input.\<close>

theorem record_keys_are_item_keys_witness:
  "list_all wf_item
     [PTuple [PStr ''fxp0'', PList [PTuple [PStr ''neighbor'', PStr ''vmx2''],
                                    PTuple [PStr ''local_interface'', PNone]]]] \<and>
   (\<exists>rs. juniper_items_to_list_of_dicts
       (PList [PTuple [PStr ''fxp0'', PList [PTuple [PStr ''neighbor'', PStr ''vmx2''],
                                             PTuple [PStr ''local_interface'', PNone]]]]) = Inr rs \<and>
      dom (rs ! 0) = {PStr ''neighbor'', PStr ''local_interface''} \<and>
      card (dom (rs ! 0)) = 2)"
proof -
  let ?item = "PTuple [PStr ''fxp0'', PList [PTuple [PStr ''neighbor'', PStr ''vmx2''],
                                    PTuple [PStr ''local_interface'', PNone]]]"
  have it: "py_iter (PList [?item]) = Inr [?item]" by simp
  have wf: "list_all wf_item [?item]"
    by (simp add: wf_item_def wf_field_def unpack2_def)
  have keys: "item_keys ?item = {PStr ''neighbor'', PStr ''local_interface''}"
    by (simp add: item_keys_def item_fields_def field_key_def field_pair_def unpack2_def)
  from record_keys_are_item_keys [OF it wf]
  obtain rs where rs: "juniper_items_to_list_of_dicts (PList [?item]) = Inr rs"
    and k: "dom (rs ! 0) = item_keys ([?item] ! 0)"
    and c: "\<forall>fields. distinct fields \<and> item_keys ([?item] ! 0) = PStr ` set fields
                 \<longrightarrow> card (dom (rs ! 0)) = length fields"
    by auto
  from c [rule_format, of "[''neighbor'', ''local_interface'']"] keys
  have "card (dom (rs ! 0)) = 2" by simp
  with rs k keys wf show ?thesis by auto
qed

text \<open>
  Claim C3 says that a key outside the declared field names is dropped.  For the schema
  with the single field \<open>neighbor\<close> and an item that also carries the key \<open>extra\<close>, the
  record keeps \<open>extra\<close>.
\<close>

theorem undeclared_key_counterexample:
  "juniper_items_to_list_of_dicts
     (PList [PTuple [PStr ''fxp0'', PList [PTuple [PStr ''neighbor'', PStr ''vmx2''],
                                           PTuple [PStr ''extra'', PStr ''x'']]]])
     = Inr [[PStr ''neighbor'' \<mapsto> PStr ''vmx2'', PStr ''extra'' \<mapsto> PStr ''x'']] \<and>
   PStr ''extra'' \<notin> PStr ` set [''neighbor''] \<and>
   PStr ''extra'' \<in> dom [PStr ''neighbor'' \<mapsto> PStr ''vmx2'', PStr ''extra'' \<mapsto> PStr ''x'']"
  by (simp add: juniper_items_to_list_of_dicts_def item_to_dict_def unpack2_def)

text \<open>
  Claim C3, as the code has it.  For every sequence of well-formed raw items and every pair
  of the \<open>i\<close>-th item, the key of the pair is a key of the \<open>i\<close>-th record, whatever the
  schema declares: no key is dropped.
\<close>

theorem every_item_key_is_kept:
  assumes "py_iter data_items = Inr items" and "list_all wf_item items"
    and "i < length items" and "p \<in> set (item_fields (items ! i))"
    and "field_key p = Some k"
  shows "\<exists>rs. juniper_items_to_list_of_dicts data_items = Inr rs \<and> k \<in> dom (rs ! i)"
proof -
  let ?rs = "map (\<lambda>item. fields_dict (item_fields item)) items"
  have "juniper_items_to_list_of_dicts data_items = Inr ?rs"
    using assms(1,2) by (rule normalizer_wf)
  moreover have "k \<in> set (List.map_filter field_key (item_fields (items ! i)))"
    using assms(4,5) by (force simp: map_filter_def)
  then have "k \<in> dom (?rs ! i)"
    using assms(3) by (simp add: dom_fields_dict)
  ultimately show ?thesis by blast
qed

text \<open>The theorem at a concrete input.\<close>

theorem every_item_key_is_kept_witness:
  "list_all wf_item
     [PTuple [PStr ''fxp0'', PList [PTuple [PStr ''neighbor'', PStr ''vmx2''],
                                    PTuple [PStr ''extra'', PStr ''x'']]]] \<and>
   (\<exists>rs. juniper_items_to_list_of_dicts
       (PList [PTuple [PStr ''fxp0'', PList [PTuple [PStr ''neighbor'', PStr ''vmx2''],
                                             PTuple [PStr ''extra'', PStr ''x'']]]]) = Inr rs \<and>
      PStr ''extra'' \<in> dom (rs ! 0))"
proof -
  let ?item = "PTuple [PStr ''fxp0'', PList [PTuple [PStr ''neighbor'', PStr ''vmx2''],
                                    PTuple [PStr ''extra'', PStr ''x'']]]"
  have it: "py_iter (PList [?item]) = Inr [?item]" by simp
  have wf: "list_all wf_item [?item]"
    by (simp add: wf_item_def wf_field_def unpack2_def)
  have i: "0 < length [?item]" by simp
  have p: "PTuple [PStr ''extra'', PStr ''x''] \<in> set (item_fields ([?item] ! 0))"
    by (simp add: item_fields_def unpack2_def)
  have k: "field_key (PTuple [PStr ''extra'', PStr ''x'']) = Some (PStr ''extra'')"
    by (simp add: field_key_def field_pair_def unpack2_def)
  from every_item_key_is_kept [OF it wf i p k] wf show ?thesis by simp
qed



text \<open>
  Claim C9 says that the normalizer never fails and that a malformed item yields a record
  with absent markers.  An item with a field of one element raises \<^verbatim>\<open>ValueError\<close>, and an
  item whose fields are \<^verbatim>\<open>None\<close> raises \<^verbatim>\<open>TypeError\<close>.
\<close>

theorem malformed_item_counterexample:
  "juniper_items_to_list_of_dicts
     (PList [PTuple [PStr ''fxp0'', PList [PTuple [PStr ''neighbor'']]]]) = Inl ValueError \<and>
   juniper_items_to_list_of_dicts (PList [PTuple [PStr ''fxp0'', PNone]]) = Inl TypeError"
  by (simp add: juniper_items_to_list_of_dicts_def item_to_dict_def unpack2_def)

text \<open>
  Claim C9, as the code has it.  The normalizer is a function of the value of
  \<^verbatim>\<open>data.items()\<close> alone.  It returns a sequence of records on every well-formed input,
  and on every other input it raises \<^verbatim>\<open>TypeError\<close> or \<^verbatim>\<open>ValueError\<close>: a malformed item
  is an error, not a record with absent markers.
\<close>

theorem normalizer_returns_iff_well_formed:
  "(wf_items data_items \<longrightarrow> (\<exists>rs. juniper_items_to_list_of_dicts data_items = Inr rs)) \<and>
   (\<not> wf_items data_items \<longrightarrow>
      juniper_items_to_list_of_dicts data_items = Inl TypeError \<or>
      juniper_items_to_list_of_dicts data_items = Inl ValueError)"
proof (intro conjI impI)
  assume "wf_items data_items"
  then obtain items where "py_iter data_items = Inr items" and "list_all wf_item items"
    by (auto simp: wf_items_def split: sum.splits)
  then show "\<exists>rs. juniper_items_to_list_of_dicts data_items = Inr rs"
    by (simp add: normalizer_wf)
next
  assume n: "\<not> wf_items data_items"
  show "juniper_items_to_list_of_dicts data_items = Inl TypeError \<or>
      juniper_items_to_list_of_dicts data_items = Inl ValueError"
  proof (cases "juniper_items_to_list_of_dicts data_items")
    case (Inl e)
    then have "e = TypeError \<or> e = ValueError"
      by (auto simp: juniper_items_to_list_of_dicts_def split: sum.splits
          dest: items_loop_error elim: py_iter.elims)
    with Inl show ?thesis by auto
  next
    case (Inr rs)
    from normalizer_Inr [OF this] have "wf_items data_items"
      by (auto simp: wf_items_def)
    with n show ?thesis by simp
  qed
qed

text \<open>The theorem at a concrete input.\<close>

theorem normalizer_returns_iff_well_formed_witness:
  "wf_items (PList [PTuple [PStr ''fxp0'', PList [PTuple [PStr ''neighbor'', PNone]]]]) \<and>
   (\<exists>rs. juniper_items_to_list_of_dicts
      (PList [PTuple [PStr ''fxp0'', PList [PTuple [PStr ''neighbor'', PNone]]]]) = Inr rs) \<and>
   \<not> wf_items (PList [PTuple [PStr ''fxp0'', PList [PInt 7]]]) \<and>
   (juniper_items_to_list_of_dicts (PList [PTuple [PStr ''fxp0'', PList [PInt 7]]]) = Inl TypeError \<or>
    juniper_items_to_list_of_dicts (PList [PTuple [PStr ''fxp0'', PList [PInt 7]]]) = Inl ValueError)"
proof -
  have a: "wf_items (PList [PTuple [PStr ''fxp0'', PList [PTuple [PStr ''neighbor'', PNone]]]])"
    by (simp add: wf_items_def wf_item_def wf_field_def unpack2_def)
  have b: "\<not> wf_items (PList [PTuple [PStr ''fxp0'', PList [PInt 7]]])"
    by (simp add: wf_items_def wf_item_def wf_field_def unpack2_def)
  from a b
    normalizer_returns_iff_well_formed
      [of "PList [PTuple [PStr ''fxp0'', PList [PTuple [PStr ''neighbor'', PNone]]]]"]
    normalizer_returns_iff_well_formed [of "PList [PTuple [PStr ''fxp0'', PList [PInt 7]]]"]
  show ?thesis by blast
qed

text \<open>
  Claim C10.  For every sequence of well-formed raw items, if the fields of the \<open>i\<close>-th item
  are \<open>pre @ p # post\<close>, where \<open>p\<close> is a pair of key \<open>k\<close> and value \<open>v\<close> and no pair of
  \<open>post\<close> has the key \<open>k\<close>, then the \<open>i\<close>-th record binds \<open>k\<close> to \<open>v\<close>, whatever pairs
  of key \<open>k\<close> stand in \<open>pre\<close>: the last pair of a key overwrites the earlier ones.
\<close>

theorem last_pair_wins:
  assumes "py_iter data_items = Inr items" and "list_all wf_item items"
    and "i < length items" and "item_fields (items ! i) = pre @ p # post"
    and "field_pair p = Some (k, v)" and "\<forall>q\<in>set post. field_key q \<noteq> Some k"
  shows "\<exists>rs. juniper_items_to_list_of_dicts data_items = Inr rs \<and> (rs ! i) k = Some v"
proof -
  let ?rs = "map (\<lambda>item. fields_dict (item_fields item)) items"
  have "juniper_items_to_list_of_dicts data_items = Inr ?rs"
    using assms(1,2) by (rule normalizer_wf)
  moreover have "(?rs ! i) k = Some v"
    using assms(3,4) fields_dict_last [OF assms(5,6)] by simp
  ultimately show ?thesis by blast
qed

text \<open>The theorem at a concrete input.\<close>

theorem last_pair_wins_witness:
  "list_all wf_item
     [PTuple [PStr ''fxp0'', PList [PTuple [PStr ''neighbor'', PStr ''vmx1''],
                                    PTuple [PStr ''port'', PInt 1],
                                    PTuple [PStr ''neighbor'', PStr ''vmx2''],
                                    PTuple [PStr ''port'', PInt 2]]]] \<and>
   (\<exists>rs. juniper_items_to_list_of_dicts
       (PList [PTuple [PStr ''fxp0'', PList [PTuple [PStr ''neighbor'', PStr ''vmx1''],
                                             PTuple [PStr ''port'', PInt 1],
                                             PTuple [PStr ''neighbor'', PStr ''vmx2''],
                                             PTuple [PStr ''port'', PInt 2]]]]) = Inr rs \<and>
      (rs ! 0) (PStr ''neighbor'') = Some (PStr ''vmx2''))"
proof -
  let ?item = "PTuple [PStr ''fxp0'', PList [PTuple [PStr ''neighbor'', PStr ''vmx1''],
                                    PTuple [PStr ''port'', PInt 1],
                                    PTuple [PStr ''neighbor'', PStr ''vmx2''],
                                    PTuple [PStr ''port'', PInt 2]]]"
  have it: "py_iter (PList [?item]) = Inr [?item]" by simp
  have wf: "list_all wf_item [?item]"
    by (simp add: wf_item_def wf_field_def unpack2_def)
  have i: "0 < length [?item]" by simp
  have fs: "item_fields ([?item] ! 0) =
      [PTuple [PStr ''neighbor'', PStr ''vmx1''], PTuple [PStr ''port'', PInt 1]]
      @ PTuple [PStr ''neighbor'', PStr ''vmx2''] # [PTuple [PStr ''port'', PInt 2]]"
    by (simp add: item_fields_def unpack2_def)
  have p: "field_pair (PTuple [PStr ''neighbor'', PStr ''vmx2'']) = Some (PStr ''neighbor'', PStr ''vmx2'')"
    by (simp add: field_pair_def unpack2_def)
  have post: "\<forall>q\<in>set [PTuple [PStr ''port'', PInt 2]]. field_key q \<noteq> Some (PStr ''neighbor'')"
    by (simp add: field_key_def field_pair_def unpack2_def)
  from last_pair_wins [OF it wf i fs p post] wf show ?thesis by simp
qed

section \<open>Properties of \<^verbatim>\<open>main\<close>\<close>

text \<open>The \<^verbatim>\<open>try\<close> body neither opens nor closes the connection.\<close>

lemma try_body_conn: "conn_open (snd (try_body env args s)) = conn_open s"
  by (simp add: try_body_def emit_def Let_def split: sum.splits option.splits)

text \<open>
  In every run that the model follows to its end, the connection is open when \<^verbatim>\<open>main\<close>
  ends exactly on the two \<^verbatim>\<open>fail_json\<close> calls inside the \<^verbatim>\<open>try\<close> body (lines 215 and
  220): every other path either never opened it or closes it (lines 230 and 233).
\<close>

lemma main_connection_at_exit:
  "fst (main env args) \<noteq> Not_modelled \<Longrightarrow>
   conn_open (snd (main env args)) =
     ((\<exists>name. fst (main env args) = Fail_json (Unable_to_find_file name)) \<or>
      (\<exists>t name. fst (main env args) = Fail_json (Unable_to_find_table t name)))"
  by (auto simp: main_def try_body_def emit_def dev_close_def Let_def
      split: sum.splits option.splits if_splits)

text \<open>
  A table name that is bound neither by the definition file nor in the module namespace is
  reported at lines 220--221, with the table and the file name.
\<close>

lemma missing_table_reported:
  assumes "HAS_PYEZ env" and "endswith (file args) ''.yml''" and "dev_open env = None"
    and "load_tables env (path_join (path args) (file args)) = Inr loaded"
    and "\<not> shadows loaded"
    and "loaded (table args) = None" and "module_globals (imported env) (table args) = None"
  shows "fst (main env args) =
           Fail_json (Unable_to_find_table (table args) (path_join (path args) (file args)))"
  using assms by (simp add: main_def try_body_def Let_def map_add_def)

text \<open>
  A table name that the definition file does not bind and that is one of the module's own
  names which cannot be called on the device is not reported as missing: the call raises
  \<^verbatim>\<open>TypeError\<close>, the handler of line 227 closes the connection and reports the uncaught
  exception.
\<close>

lemma map_of_const:
  "name \<in> set names \<Longrightarrow> map_of (map (\<lambda>n. (n, c)) names) name = Some c"
  by (induction names) auto

lemma module_name_raises:
  assumes "HAS_PYEZ env" and "endswith (file args) ''.yml''" and "dev_open env = None"
    and "load_tables env (path_join (path args) (file args)) = Inr loaded"
    and "\<not> shadows loaded"
    and "loaded (table args) = None" and "table args \<in> set (''main'' # module_constants)"
  shows "fst (main env args) = Fail_json (Uncaught TypeError) \<and>
         \<not> conn_open (snd (main env args))"
proof -
  have "map_of (map (\<lambda>name. (name, Inl TypeError :: callee)) (''main'' # module_constants))
      (table args) = Some (Inl TypeError)"
    using assms(7) by (rule map_of_const)
  then have "module_globals (imported env) (table args) = Some (Inl TypeError)"
    unfolding module_globals_def by (rule map_add_find_right)
  with assms(1-6) show ?thesis
    by (simp add: main_def try_body_def Let_def map_add_def dev_close_def emit_def)
qed

text \<open>A catalogue that rebinds a name used after the update is where the model stops.\<close>

lemma shadowing_catalogue_not_modelled:
  assumes "HAS_PYEZ env" and "endswith (file args) ''.yml''" and "dev_open env = None"
    and "load_tables env (path_join (path args) (file args)) = Inr loaded"
    and "shadows loaded"
  shows "fst (main env args) = Not_modelled"
  using assms by (simp add: main_def try_body_def Let_def)

text \<open>
  A failure of the request to the device is caught at line 227: the connection is closed
  last, and the failure is the uncaught exception.
\<close>

lemma request_failure_closes:
  assumes "HAS_PYEZ env" and "endswith (file args) ''.yml''" and "dev_open env = None"
    and "load_tables env (path_join (path args) (file args)) = Inr loaded"
    and "\<not> shadows loaded"
    and "loaded (table args) = Some (Inr data)" and "table_get data = Some err"
  shows "fst (main env args) = Fail_json (Uncaught err) \<and> \<not> conn_open (snd (main env args)) \<and>
         last (trace (snd (main env args))) = Dev_close"
  using assms by (simp add: main_def try_body_def Let_def map_add_def dev_close_def emit_def)

text \<open>A successful run in each response type.\<close>

lemma main_success_example:
  "main \<lparr>HAS_PYEZ = True, dev_open = None,
         load_tables = (\<lambda>name. if name = ''/op/lldp.yml''
            then Inr [''LLDPNeighborTable'' \<mapsto>
                   Inr \<lparr>table_get = None,
                        table_items = PList [PTuple [PStr ''fxp0'',
                          PList [PTuple [PStr ''neighbor'', PStr ''vmx2'']]]]\<rparr>]
            else Inl IOError),
         imported = Map.empty\<rparr>
        \<lparr>host = ''vmx1'', user = None, passwd = None, port = ''830'', logfile = Some ''run.log'',
         file = ''lldp.yml'', path = ''/op'', table = ''LLDPNeighborTable'',
         response_type = ''list_of_dicts''\<rparr>
     = (Exit_json (Dicts [[PStr ''neighbor'' \<mapsto> PStr ''vmx2'']]),
        \<lparr>conn_open = False,
         trace = [Log_config ''run.log'', Log_info, Dev_open, Read_file ''/op/lldp.yml'',
                  Log_info, Data_get, Dev_close]\<rparr>)"
  by (simp add: main_def try_body_def emit_def dev_close_def path_join_def endswith_def Let_def
      module_globals_def module_constants_def map_add_def shadows_def
      names_used_after_update_def
      juniper_items_to_list_of_dicts_def item_to_dict_def unpack2_def)

lemma main_raw_items_example:
  "fst (main \<lparr>HAS_PYEZ = True, dev_open = None,
         load_tables = (\<lambda>name. Inr [''LLDPNeighborTable'' \<mapsto>
                   Inr \<lparr>table_get = None,
                        table_items = PList [PTuple [PStr ''fxp0'',
                          PList [PTuple [PStr ''neighbor'', PStr ''vmx2'']]]]\<rparr>]),
         imported = Map.empty\<rparr>
        \<lparr>host = ''vmx1'', user = None, passwd = None, port = ''830'', logfile = None,
         file = ''lldp.yml'', path = ''/op'', table = ''LLDPNeighborTable'',
         response_type = ''juniper_items''\<rparr>)
     = Exit_json (Items (PList [PTuple [PStr ''fxp0'',
                          PList [PTuple [PStr ''neighbor'', PStr ''vmx2'']]]]))"
  by (simp add: main_def try_body_def emit_def dev_close_def path_join_def endswith_def Let_def
      module_globals_def module_constants_def map_add_def shadows_def
      names_used_after_update_def)

section \<open>The claims about \<^verbatim>\<open>main\<close>\<close>

text \<open>
  Claim C7.  For every invocation whose file name does not end in \<^verbatim>\<open>.yml\<close>, \<^verbatim>\<open>main\<close>
  fails before it does anything to the outside: the trace is empty (no log file is
  configured, no file is read, no connection is attempted) and no connection is open.
  The failure is the one of line 189; with a PyEZ older than 1.2.2 the requirement check
  of line 181 comes first and the failure is that one.
\<close>

theorem bad_extension_fails_first:
  assumes "\<not> endswith (file args) ''.yml''"
  shows "fst (main env args) = Fail_json (if HAS_PYEZ env then Bad_extension else PyEZ_required) \<and>
         snd (main env args) = \<lparr>conn_open = False, trace = []\<rparr>"
  using assms by (simp add: main_def)

text \<open>The theorem at the file name of the module's second example, \<^verbatim>\<open>ntclldp.yaml\<close>.\<close>

theorem bad_extension_fails_first_witness:
  "\<not> endswith ''ntclldp.yaml'' ''.yml'' \<and>
   main \<lparr>HAS_PYEZ = True, dev_open = None, load_tables = (\<lambda>name. Inl IOError),
         imported = Map.empty\<rparr>
        \<lparr>host = ''vmx1'', user = None, passwd = None, port = ''830'', logfile = Some ''log'',
         file = ''ntclldp.yaml'', path = ''tables/'', table = ''NTCNeighborTable'',
         response_type = ''list_of_dicts''\<rparr>
     = (Fail_json Bad_extension, \<lparr>conn_open = False, trace = []\<rparr>)"
proof -
  let ?env = "\<lparr>HAS_PYEZ = True, dev_open = None, load_tables = (\<lambda>name. Inl IOError),
         imported = Map.empty\<rparr>"
  let ?args = "\<lparr>host = ''vmx1'', user = None, passwd = None, port = ''830'', logfile = Some ''log'',
         file = ''ntclldp.yaml'', path = ''tables/'', table = ''NTCNeighborTable'',
         response_type = ''list_of_dicts''\<rparr>"
  have e: "\<not> endswith (file ?args) ''.yml''" by (simp add: endswith_def)
  from bad_extension_fails_first [OF e, of ?env] e show ?thesis
    by (simp add: prod_eq_iff)
qed

text \<open>
  Claim C8.  For every invocation that reaches \<^verbatim>\<open>Device(...).open()\<close> and in which it
  raises, \<^verbatim>\<open>main\<close> fails with the connection failure of line 205 (host and error), no
  connection is open at the end, and the definition file is never read.
\<close>

theorem connect_failure_reported:
  assumes "HAS_PYEZ env" and "endswith (file args) ''.yml''" and "dev_open env = Some err"
  shows "fst (main env args) = Fail_json (Unable_to_connect (host args) err) \<and>
         \<not> conn_open (snd (main env args)) \<and>
         (\<forall>name. Read_file name \<notin> set (trace (snd (main env args))))"
  using assms by (auto simp: main_def emit_def Let_def split: option.splits)

text \<open>The theorem at a concrete input.\<close>

theorem connect_failure_reported_witness:
  "endswith ''lldp.yml'' ''.yml'' \<and>
   fst (main \<lparr>HAS_PYEZ = True, dev_open = Some (OtherError ''ConnectAuthError(vmx1)''),
              load_tables = (\<lambda>name. Inl IOError), imported = Map.empty\<rparr>
             \<lparr>host = ''vmx1'', user = Some ''root'', passwd = Some ''wrong'', port = ''830'',
              logfile = None, file = ''lldp.yml'', path = ''/op'', table = ''LLDPNeighborTable'',
              response_type = ''list_of_dicts''\<rparr>)
     = Fail_json (Unable_to_connect ''vmx1'' (OtherError ''ConnectAuthError(vmx1)'')) \<and>
   \<not> conn_open (snd (main \<lparr>HAS_PYEZ = True, dev_open = Some (OtherError ''ConnectAuthError(vmx1)''),
              load_tables = (\<lambda>name. Inl IOError), imported = Map.empty\<rparr>
             \<lparr>host = ''vmx1'', user = Some ''root'', passwd = Some ''wrong'', port = ''830'',
              logfile = None, file = ''lldp.yml'', path = ''/op'', table = ''LLDPNeighborTable'',
              response_type = ''list_of_dicts''\<rparr>))"
proof -
  let ?env = "\<lparr>HAS_PYEZ = True, dev_open = Some (OtherError ''ConnectAuthError(vmx1)''),
              load_tables = (\<lambda>name. Inl IOError), imported = Map.empty\<rparr>"
  let ?args = "\<lparr>host = ''vmx1'', user = Some ''root'', passwd = Some ''wrong'', port = ''830'',
              logfile = None, file = ''lldp.yml'', path = ''/op'', table = ''LLDPNeighborTable'',
              response_type = ''list_of_dicts''\<rparr>"
  have a: "HAS_PYEZ ?env" by simp
  have b: "endswith (file ?args) ''.yml''" by (simp add: endswith_def)
  have c: "dev_open ?env = Some (OtherError ''ConnectAuthError(vmx1)'')" by simp
  from connect_failure_reported [OF a b c] b show ?thesis by simp
qed

text \<open>
  Claim C2 says that the connection is closed on every exit path on which it was opened.
  When the definition file cannot be read, the handler of line 214 calls \<^verbatim>\<open>fail_json\<close>
  and the process ends there: the connection opened at line 200 is still open and no
  \<^verbatim>\<open>dev.close()\<close> is in the trace.  The handler of line 227 and the normal path do close
  it.
\<close>

theorem unreadable_file_leaves_connection_open:
  "main \<lparr>HAS_PYEZ = True, dev_open = None, load_tables = (\<lambda>name. Inl IOError),
         imported = Map.empty\<rparr>
        \<lparr>host = ''vmx1'', user = None, passwd = None, port = ''830'', logfile = None,
         file = ''lldp.yml'', path = ''/op'', table = ''LLDPNeighborTable'',
         response_type = ''list_of_dicts''\<rparr>
     = (Fail_json (Unable_to_find_file ''/op/lldp.yml''),
        \<lparr>conn_open = True, trace = [Log_info, Dev_open, Read_file ''/op/lldp.yml'']\<rparr>)"
  by (simp add: main_def try_body_def emit_def path_join_def endswith_def Let_def)

text \<open>
  Claim C6 says that a table name missing from a definition file that loads is reported
  as a missing table.  The lookup of line 218 is in \<^verbatim>\<open>globals()\<close>: for the name
  \<^verbatim>\<open>CHOICES\<close>, which the file does not define, it finds the module's list, the call
  raises \<^verbatim>\<open>TypeError\<close>, and the failure is the uncaught exception of line 231.
\<close>

theorem module_name_is_not_reported_missing:
  "main \<lparr>HAS_PYEZ = True, dev_open = None,
         load_tables = (\<lambda>name. Inr [''LLDPNeighborTable'' \<mapsto>
                          Inr \<lparr>table_get = None, table_items = PList []\<rparr>]),
         imported = Map.empty\<rparr>
        \<lparr>host = ''vmx1'', user = None, passwd = None, port = ''830'', logfile = None,
         file = ''lldp.yml'', path = ''/op'', table = ''CHOICES'',
         response_type = ''list_of_dicts''\<rparr>
     = (Fail_json (Uncaught TypeError),
        \<lparr>conn_open = False,
         trace = [Log_info, Dev_open, Read_file ''/op/lldp.yml'', Log_info, Log_error, Dev_close]\<rparr>)"
  by (simp add: main_def try_body_def emit_def dev_close_def path_join_def endswith_def Let_def
      module_globals_def module_constants_def map_add_def shadows_def
      names_used_after_update_def)

end
